theory Spec2Isabelle
  imports Complex_Main "HOL-Library.Sublist" "HOL-Library.Char_ord" "HOL-Library.List_Lexorder"
begin

section \<open>Numbers\<close>

text \<open>
  Python integers are unbounded and are modelled by \<^typ>\<open>int\<close>. Python floats and
  Decimals are modelled by exact real numbers (\<^typ>\<open>real\<close>): the binary representation
  error of a float is outside this model, every arithmetic operation is exact.

  \<open>round(x, n)\<close> on a float rounds to \<open>n\<close> decimals, a tie going to the even
  neighbour. Python rounds the binary float that its division has produced, the model
  rounds the exact quotient. The two agree unless the exact value is a tie at the
  rounded digit, or within the float error of one: for 50 clicks in a million
  impressions the exact rate is the tie 0.005, which the model rounds to 0.0 and Python,
  whose float lies just above the tie, to 0.01; for 23 conversions in 160 clicks the
  model gives 14.38 and Python 14.37. Every value that a theorem below computes with
  \<open>round_py\<close> is away from such a tie, so that the model and Python agree on it; the
  theorems that hold for all inputs do not depend on which way a value is rounded.
\<close>

definition round_half_even :: "real \<Rightarrow> int" where
  "round_half_even x =
     (let n = \<lfloor>x\<rfloor>; r = x - of_int n
      in if r < 1 / 2 then n
         else if 1 / 2 < r then n + 1
         else if even n then n else n + 1)"

definition round_py :: "real \<Rightarrow> nat \<Rightarrow> real" where
  "round_py x ndigits = of_int (round_half_even (x * 10 ^ ndigits)) / 10 ^ ndigits"

section \<open>core/models.py: DailyAnalytics\<close>

text \<open>
  The counters and the derived fields of one \<open>DailyAnalytics\<close> row. The fields
  \<open>impressions\<close>, \<open>clicks\<close>, \<open>conversions\<close>, \<open>spend\<close>, \<open>ctr\<close>, \<open>cpc\<close>, \<open>cpa\<close>
  of the source carry the prefix \<open>d_\<close> here, since \<open>ABTestVariation\<close> has fields of the
  same names. Primary key, campaign reference, date and the timestamps play no part in
  the computations and are left out.
\<close>

record DailyAnalytics =
  d_impressions :: int
  d_clicks :: int
  d_conversions :: int
  d_spend :: real
  d_ctr :: real
  d_cpc :: real
  d_cpa :: real

text \<open>
  \<open>DailyAnalytics.save\<close>: three guarded assignments, then the row is written as it
  stands. A guard that fails leaves the field as it was.
\<close>

definition DailyAnalytics_save :: "DailyAnalytics \<Rightarrow> DailyAnalytics" where
  "DailyAnalytics_save self =
     (let self = (if 0 < d_impressions self
                  then self\<lparr>d_ctr := round_py (of_int (d_clicks self) / of_int (d_impressions self) * 100) 2\<rparr>
                  else self);
          self = (if 0 < d_clicks self
                  then self\<lparr>d_cpc := round_py (d_spend self / of_int (d_clicks self)) 2\<rparr>
                  else self);
          self = (if 0 < d_conversions self
                  then self\<lparr>d_cpa := round_py (d_spend self / of_int (d_conversions self)) 2\<rparr>
                  else self)
      in self)"

text \<open>
  The upsert of the sync service (\<open>DailyAnalytics.objects.update_or_create\<close> with the
  four counters as \<open>defaults\<close>): on an existing row the four counters are replaced
  together and the row is saved.
\<close>

definition update_or_create :: "DailyAnalytics \<Rightarrow> int \<Rightarrow> int \<Rightarrow> int \<Rightarrow> real \<Rightarrow> DailyAnalytics" where
  "update_or_create existing impressions clicks conversions spend =
     DailyAnalytics_save
       (existing\<lparr>d_impressions := impressions, d_clicks := clicks,
                  d_conversions := conversions, d_spend := spend\<rparr>)"

section \<open>core/models.py: CampaignAnalyticsSummary\<close>

record CampaignAnalyticsSummary =
  total_impressions :: int
  total_clicks :: int
  total_conversions :: int
  total_spend :: real
  avg_ctr :: real
  avg_cpc :: real
  avg_conversion_rate :: real
  roas :: real
  performance_score :: int

definition calculate_performance_score :: "CampaignAnalyticsSummary \<Rightarrow> int" where
  "calculate_performance_score self =
     (let score = 0;
          score = (if 5 \<le> avg_ctr self then score + 30
                   else if 3 \<le> avg_ctr self then score + 20
                   else if 1 \<le> avg_ctr self then score + 10
                   else score);
          score = (if 10 \<le> avg_conversion_rate self then score + 30
                   else if 5 \<le> avg_conversion_rate self then score + 20
                   else if 2 \<le> avg_conversion_rate self then score + 10
                   else score);
          score = (if 5 \<le> roas self then score + 40
                   else if 3 \<le> roas self then score + 30
                   else if 2 \<le> roas self then score + 20
                   else if 1 \<le> roas self then score + 10
                   else score)
      in min score 100)"

text \<open>
  \<open>update_metrics\<close>: \<open>daily_data\<close> is the campaign's set of rows
  (\<open>self.campaign.daily_analytics.all()\<close>), \<open>self\<close> the summary as loaded. The final
  \<open>self.save()\<close> writes the returned record.
\<close>

definition update_metrics :: "DailyAnalytics list \<Rightarrow> CampaignAnalyticsSummary \<Rightarrow> CampaignAnalyticsSummary" where
  "update_metrics daily_data self =
     (let self = self\<lparr>total_impressions := sum_list (map d_impressions daily_data)\<rparr>;
          self = self\<lparr>total_clicks := sum_list (map d_clicks daily_data)\<rparr>;
          self = self\<lparr>total_conversions := sum_list (map d_conversions daily_data)\<rparr>;
          self = self\<lparr>total_spend := sum_list (map d_spend daily_data)\<rparr>;
          self = (if 0 < total_impressions self
                  then self\<lparr>avg_ctr := round_py (of_int (total_clicks self) / of_int (total_impressions self) * 100) 2\<rparr>
                  else self);
          self = (if 0 < total_clicks self
                  then self\<lparr>avg_cpc := round_py (total_spend self / of_int (total_clicks self)) 2,
                            avg_conversion_rate :=
                              round_py (of_int (total_conversions self) / of_int (total_clicks self) * 100) 2\<rparr>
                  else self);
          self = (if 0 < total_spend self
                  then (let revenue = total_conversions self * 50
                        in self\<lparr>roas := round_py (of_int revenue / total_spend self) 2\<rparr>)
                  else self)
      in self\<lparr>performance_score := calculate_performance_score self\<rparr>)"

text \<open>The summary as the model's defaults create it: every field zero.\<close>

definition new_summary :: CampaignAnalyticsSummary where
  "new_summary =
     \<lparr>total_impressions = 0, total_clicks = 0, total_conversions = 0, total_spend = 0,
      avg_ctr = 0, avg_cpc = 0, avg_conversion_rate = 0, roas = 0, performance_score = 0\<rparr>"

section \<open>Rendering numbers in messages\<close>

text \<open>\<open>str\<close> of a Python integer: decimal digits, a minus sign for a negative one.\<close>

fun str_nat :: "nat \<Rightarrow> string" where
  "str_nat n = (if n < 10 then [char_of (48 + n)] else str_nat (n div 10) @ [char_of (48 + n mod 10)])"

declare str_nat.simps [simp del]

definition str_int :: "int \<Rightarrow> string" where
  "str_int i = (if i < 0 then ''-'' @ str_nat (nat (- i)) else str_nat (nat i))"

text \<open>The format \<open>{x:.1f}\<close>: one decimal, a tie going to the even neighbour.\<close>

definition format_1f :: "real \<Rightarrow> string" where
  "format_1f x =
     (let n = round_half_even (\<bar>x\<bar> * 10)
      in (if x < 0 then ''-'' else []) @ str_nat (nat (n div 10)) @ ''.'' @ str_nat (nat (n mod 10)))"

section \<open>core/models.py: ABTestVariation and ABTest\<close>

record ABTestVariation =
  name :: string
  impressions :: int
  clicks :: int
  conversions :: int
  spend :: real

text \<open>The properties \<open>ctr\<close> and \<open>conversion_rate\<close> of a variation.\<close>

definition ctr :: "ABTestVariation \<Rightarrow> real" where
  "ctr self =
     (if impressions self = 0 then 0
      else round_py (of_int (clicks self) / of_int (impressions self) * 100) 2)"

definition conversion_rate :: "ABTestVariation \<Rightarrow> real" where
  "conversion_rate self =
     (if clicks self = 0 then 0
      else round_py (of_int (conversions self) / of_int (clicks self) * 100) 2)"

text \<open>
  An \<open>ABTest\<close> with the rows of its \<open>variations\<close> relation, in the order the database
  returns them. The attribute \<open>winner\<close> holds what was last assigned to it: a string
  (the empty string by default) or \<open>None\<close>; \<open>p_value\<close> is a nullable float. The field
  \<open>confidence_level\<close> is read nowhere in the service and is left out.
\<close>

record ABTest =
  status :: string
  success_metric :: string
  min_sample_size :: int
  winner :: "string option"
  is_significant :: bool
  p_value :: "real option"
  variations :: "ABTestVariation list"

section \<open>core/services/ab_testing.py\<close>

text \<open>
  \<open>scipy.stats.chi2_contingency\<close> is a library function, not code of this repository.
  It is a parameter of the model: given the observed table it returns the p-value (the
  only component of its result the service reads), or raises \<open>ValueError\<close> (scipy does
  so on a negative entry and on an expected frequency of zero).
\<close>

datatype error = ValueError

type_synonym chi2_contingency = "int list list \<Rightarrow> error + real"

text \<open>
  A chi-square function given by a finite table of p-values, for evaluating the service
  at concrete inputs; it raises on every table it does not list.
\<close>

definition chi2_lookup :: "(int list list \<times> real) list \<Rightarrow> chi2_contingency" where
  "chi2_lookup table observed =
     (case map_of table observed of Some p \<Rightarrow> Inr p | None \<Rightarrow> Inl ValueError)"

text \<open>
  The dictionary that \<open>calculate_statistical_significance\<close> returns. The keys
  \<open>p_value\<close> and \<open>winner\<close> carry the prefix \<open>res_\<close> (they are fields of \<open>ABTest\<close>
  too); \<open>res_winner = None\<close> is Python's \<open>None\<close>. The last four keys are absent
  (\<open>None\<close> here) from the dictionary returned for an unknown metric.
\<close>

record significance =
  significant :: bool
  res_p_value :: real
  res_winner :: "string option"
  confidence :: "real option"
  metric_a :: "real option"
  metric_b :: "real option"
  improvement :: "real option"

definition calculate_statistical_significance ::
  "chi2_contingency \<Rightarrow> ABTestVariation \<Rightarrow> ABTestVariation \<Rightarrow> string \<Rightarrow> error + significance" where
  "calculate_statistical_significance chi2 variation_a variation_b metric =
     (if metric = ''ctr'' then
        (let clicks_a = clicks variation_a;
             impressions_a = impressions variation_a;
             clicks_b = clicks variation_b;
             impressions_b = impressions variation_b
         in if impressions_a = 0 \<or> impressions_b = 0 then
              Inr \<lparr>significant = False, res_p_value = 1, res_winner = None, confidence = Some 0,
                   metric_a = Some 0, metric_b = Some 0, improvement = Some 0\<rparr>
            else
              (case chi2 [[clicks_a, impressions_a - clicks_a], [clicks_b, impressions_b - clicks_b]] of
                 Inl e \<Rightarrow> Inl e
               | Inr p \<Rightarrow>
                   (let is_sig = p < 5 / 100;
                        ctr_a = ctr variation_a;
                        ctr_b = ctr variation_b;
                        win = (if is_sig then (if ctr_b < ctr_a then Some ''A'' else Some ''B'') else None);
                        improv = (if 0 < max ctr_a ctr_b
                                  then \<bar>ctr_a - ctr_b\<bar> / max ctr_a ctr_b * 100 else 0)
                    in Inr \<lparr>significant = is_sig, res_p_value = p, res_winner = win,
                            confidence = Some ((1 - p) * 100), metric_a = Some ctr_a,
                            metric_b = Some ctr_b, improvement = Some improv\<rparr>)))
      else if metric = ''conversion_rate'' then
        (let conversions_a = conversions variation_a;
             clicks_a = clicks variation_a;
             conversions_b = conversions variation_b;
             clicks_b = clicks variation_b
         in if clicks_a = 0 \<or> clicks_b = 0 then
              Inr \<lparr>significant = False, res_p_value = 1, res_winner = None, confidence = Some 0,
                   metric_a = Some 0, metric_b = Some 0, improvement = Some 0\<rparr>
            else
              (case chi2 [[conversions_a, clicks_a - conversions_a], [conversions_b, clicks_b - conversions_b]] of
                 Inl e \<Rightarrow> Inl e
               | Inr p \<Rightarrow>
                   (let is_sig = p < 5 / 100;
                        conv_rate_a = conversion_rate variation_a;
                        conv_rate_b = conversion_rate variation_b;
                        win = (if is_sig then (if conv_rate_b < conv_rate_a then Some ''A'' else Some ''B'')
                               else None);
                        improv = (if 0 < max conv_rate_a conv_rate_b
                                  then \<bar>conv_rate_a - conv_rate_b\<bar> / max conv_rate_a conv_rate_b * 100
                                  else 0)
                    in Inr \<lparr>significant = is_sig, res_p_value = p, res_winner = win,
                            confidence = Some ((1 - p) * 100), metric_a = Some conv_rate_a,
                            metric_b = Some conv_rate_b, improvement = Some improv\<rparr>)))
      else
        Inr \<lparr>significant = False, res_p_value = 1, res_winner = None, confidence = None,
             metric_a = None, metric_b = None, improvement = None\<rparr>)"

text \<open>\<open>check_minimum_sample_size\<close>: the loop returns \<open>False\<close> at the first variation below the floor.\<close>

fun below_floor_loop :: "int \<Rightarrow> ABTestVariation list \<Rightarrow> bool" where
  "below_floor_loop m [] = True"
| "below_floor_loop m (variation # rest) =
     (if impressions variation < m then False else below_floor_loop m rest)"

definition check_minimum_sample_size :: "ABTest \<Rightarrow> bool" where
  "check_minimum_sample_size ab_test = below_floor_loop (min_sample_size ab_test) (variations ab_test)"

text \<open>
  \<open>ab_test.variations.all().order_by('name')\<close>: the rows sorted by name, here in the
  lexicographic order of the characters' codes, rows of equal name keeping their order.
\<close>

definition order_by_name :: "ABTestVariation list \<Rightarrow> ABTestVariation list" where
  "order_by_name vs = sort_key name vs"

text \<open>One entry of the list \<open>results\<close> of \<open>analyze_test\<close>.\<close>

record comparison =
  variation_a :: string
  variation_b :: string
  result :: significance

text \<open>
  The nested loops of \<open>analyze_test\<close>: for every \<open>i\<close>, every \<open>j > i\<close>. An exception
  of the chi-square function ends them.
\<close>

fun compare_with :: "chi2_contingency \<Rightarrow> string \<Rightarrow> ABTestVariation \<Rightarrow> ABTestVariation list \<Rightarrow> error + comparison list" where
  "compare_with chi2 metric var_a [] = Inr []"
| "compare_with chi2 metric var_a (var_b # rest) =
     (case calculate_statistical_significance chi2 var_a var_b metric of
        Inl e \<Rightarrow> Inl e
      | Inr r \<Rightarrow>
          (case compare_with chi2 metric var_a rest of
             Inl e \<Rightarrow> Inl e
           | Inr rs \<Rightarrow> Inr (\<lparr>variation_a = name var_a, variation_b = name var_b, result = r\<rparr> # rs)))"

fun compare_pairs :: "chi2_contingency \<Rightarrow> string \<Rightarrow> ABTestVariation list \<Rightarrow> error + comparison list" where
  "compare_pairs chi2 metric [] = Inr []"
| "compare_pairs chi2 metric (var_a # rest) =
     (case compare_with chi2 metric var_a rest of
        Inl e \<Rightarrow> Inl e
      | Inr rs \<Rightarrow>
          (case compare_pairs chi2 metric rest of
             Inl e \<Rightarrow> Inl e
           | Inr rs' \<Rightarrow> Inr (rs @ rs')))"

text \<open>
  The four shapes of the dictionary that \<open>analyze_test\<close> returns:
  \<open>{'error': e}\<close>, \<open>{'status': 'insufficient_data', 'message': m}\<close>,
  \<open>{'status': 'completed', 'winner': w, 'significant': True, 'details': d}\<close> and
  \<open>{'status': 'inconclusive', 'message': m, 'details': ds}\<close>.
\<close>

datatype analysis =
    Error_result string
  | Insufficient_data string
  | Completed "string option" bool significance
  | Inconclusive string "comparison list"

text \<open>\<open>analysis.get('status')\<close> and \<open>analysis.get('significant')\<close> (absent: falsy).\<close>

fun get_status :: "analysis \<Rightarrow> string option" where
  "get_status (Error_result e) = None"
| "get_status (Insufficient_data m) = Some ''insufficient_data''"
| "get_status (Completed w s d) = Some ''completed''"
| "get_status (Inconclusive m ds) = Some ''inconclusive''"

fun get_significant :: "analysis \<Rightarrow> bool" where
  "get_significant (Completed w s d) = s"
| "get_significant _ = False"

text \<open>
  \<open>analyze_test\<close> returns its dictionary and the test object as it leaves it;
  \<open>ab_test.save()\<close> directly follows the three assignments, so the object returned is
  also the stored row.
\<close>

definition analyze_test :: "chi2_contingency \<Rightarrow> ABTest \<Rightarrow> error + (analysis \<times> ABTest)" where
  "analyze_test chi2 ab_test =
     (if status ab_test \<noteq> ''running'' then Inr (Error_result ''Test is not running'', ab_test)
      else if \<not> check_minimum_sample_size ab_test then
        Inr (Insufficient_data
               (''Need at least '' @ str_int (min_sample_size ab_test) @ '' impressions per variation''),
             ab_test)
      else
        (let vs = order_by_name (variations ab_test)
         in if length vs < 2 then Inr (Error_result ''Need at least 2 variations'', ab_test)
            else
              (case compare_pairs chi2 (success_metric ab_test) vs of
                 Inl e \<Rightarrow> Inl e
               | Inr results \<Rightarrow>
                   (case results of
                      [] \<Rightarrow> Inr (Inconclusive ''No statistically significant winner yet'' results, ab_test)
                    | r # _ \<Rightarrow>
                        if significant (result r) then
                          (let winner_name = res_winner (result r);
                               ab_test = ab_test\<lparr>winner := winner_name, is_significant := True,
                                                 p_value := Some (res_p_value (result r))\<rparr>
                           in Inr (Completed winner_name True (result r), ab_test))
                        else Inr (Inconclusive ''No statistically significant winner yet'' results, ab_test)))))"

text \<open>The dictionaries of \<open>get_recommendation\<close>, with keys \<open>type\<close>, \<open>message\<close>, \<open>priority\<close>.\<close>

record test_recommendation =
  rec_type :: string
  rec_message :: string
  rec_priority :: string

text \<open>\<open>str\<close> of the winner inside the message: the name, or \<open>None\<close>.\<close>

definition str_winner :: "string option \<Rightarrow> string" where
  "str_winner w = (case w of None \<Rightarrow> ''None'' | Some s \<Rightarrow> s)"

fun recommend_for :: "analysis \<Rightarrow> test_recommendation list" where
  "recommend_for (Completed w s d) =
     (let improv = (case improvement d of None \<Rightarrow> 0 | Some x \<Rightarrow> x)
      in [\<lparr>rec_type = ''action'',
            rec_message = ''Variation '' @ str_winner w @ '' is the clear winner with '' @ format_1f improv
                          @ ''% improvement. Implement this variation.'',
            rec_priority = ''high''\<rparr>])"
| "recommend_for _ = []"

definition get_recommendation :: "chi2_contingency \<Rightarrow> ABTest \<Rightarrow> error + (test_recommendation list \<times> ABTest)" where
  "get_recommendation chi2 ab_test =
     (case analyze_test chi2 ab_test of
        Inl e \<Rightarrow> Inl e
      | Inr (analysis, ab_test) \<Rightarrow>
          Inr (if get_status analysis = Some ''insufficient_data'' then
                 [\<lparr>rec_type = ''wait'',
                   rec_message = ''Continue running the test until minimum sample size is reached'',
                   rec_priority = ''high''\<rparr>]
               else if get_status analysis = Some ''completed'' \<and> get_significant analysis then
                 recommend_for analysis
               else if get_status analysis = Some ''inconclusive'' then
                 [\<lparr>rec_type = ''extend'',
                   rec_message = ''No clear winner yet. Consider running the test longer or increasing traffic.'',
                   rec_priority = ''medium''\<rparr>]
               else [],
               ab_test))"

section \<open>core/views.py: WeeklyReportView._generate_weekly_recommendations\<close>

text \<open>
  The metrics reach the generator as Python numbers: an \<open>int\<close> (the literal \<open>0\<close> of the
  guarded rates, the counts) or a \<open>float\<close> (a rounded rate). Comparisons read the value;
  an f-string renders an \<open>int\<close> with \<open>str_int\<close> and a \<open>float\<close> with Python's \<open>repr\<close>, which
  is a parameter of the model (\<open>repr_float\<close>), like every builtin that has no exact
  counterpart on real numbers.
\<close>

datatype number = PyInt int | PyFloat real

fun val :: "number \<Rightarrow> real" where
  "val (PyInt i) = of_int i"
| "val (PyFloat x) = x"

fun str_number :: "(real \<Rightarrow> string) \<Rightarrow> number \<Rightarrow> string" where
  "str_number repr_float (PyInt i) = str_int i"
| "str_number repr_float (PyFloat x) = repr_float x"

text \<open>
  What the generator reads of a campaign: its title and the performance score of its
  summary. Of the dictionary \<open>insights\<close> it reads the key \<open>roas\<close> only.
\<close>

record Campaign =
  title :: string
  analytics_summary :: CampaignAnalyticsSummary

record insights =
  insights_roas :: number

text \<open>One recommendation dictionary, a field per key, the key with the prefix \<open>w_\<close>.\<close>

record recommendation =
  w_category :: string
  w_priority :: string
  w_title :: string
  w_description :: string
  w_action :: string
  w_impact :: string
  w_metric :: string
  w_current :: string
  w_target :: string

text \<open>
  The rule table: the list \<open>recommendations\<close> as the seven blocks of the function have
  appended to it, before it is sorted.
\<close>

definition weekly_rules ::
  "(real \<Rightarrow> string) \<Rightarrow> number \<Rightarrow> number \<Rightarrow> number \<Rightarrow> number \<Rightarrow> int \<Rightarrow> int
   \<Rightarrow> Campaign option \<Rightarrow> Campaign option \<Rightarrow> insights \<Rightarrow> recommendation list" where
  "weekly_rules repr_float avg_ctr_w conversion_rate_w click_growth total_spend_w active_campaigns
       ads_generated top_campaign worst_campaign ins =
     (if val avg_ctr_w < 2 then
        [\<lparr>w_category = ''Performance'', w_priority = ''high'',
          w_title = ''Improve Click-Through Rate'',
          w_description = ''Your weekly CTR is '' @ str_number repr_float avg_ctr_w
            @ ''%, which is below the 3-5% industry benchmark. Test new headlines and visuals.'',
          w_action = ''A/B Test Creatives'', w_impact = ''+50-100% potential CTR increase'',
          w_metric = ''CTR'', w_current = str_number repr_float avg_ctr_w @ ''%'', w_target = ''3-5%''\<rparr>]
      else if 5 \<le> val avg_ctr_w then
        [\<lparr>w_category = ''Performance'', w_priority = ''high'',
          w_title = ''Excellent Performance - Scale Up'',
          w_description = ''Your '' @ str_number repr_float avg_ctr_w
            @ ''% CTR is outstanding! Scale your best campaigns to maximize results.'',
          w_action = ''Increase Budget'', w_impact = ''+100-200% potential reach'',
          w_metric = ''CTR'', w_current = str_number repr_float avg_ctr_w @ ''%'', w_target = ''Maintain''\<rparr>]
      else [])
     @ (if val conversion_rate_w < 5 \<and> 2 < val avg_ctr_w then
          [\<lparr>w_category = ''Optimization'', w_priority = ''high'',
            w_title = ''Optimize Conversion Funnel'',
            w_description = ''You have good traffic ('' @ str_number repr_float avg_ctr_w
              @ ''% CTR) but low conversions ('' @ str_number repr_float conversion_rate_w
              @ ''%). Review landing pages.'',
            w_action = ''Optimize Landing Page'', w_impact = ''+30-60% conversion increase'',
            w_metric = ''Conversion Rate'', w_current = str_number repr_float conversion_rate_w @ ''%'',
            w_target = ''5-10%''\<rparr>]
        else [])
     @ (if val click_growth < - 10 then
          [\<lparr>w_category = ''Engagement'', w_priority = ''high'',
            w_title = ''Reverse Declining Engagement'',
            w_description = ''Engagement dropped '' @ str_number repr_float click_growth
              @ ''% this week. Refresh ad creatives and review audience targeting.'',
            w_action = ''Refresh Campaign'', w_impact = ''Reverse negative trend'',
            w_metric = ''Weekly Growth'', w_current = str_number repr_float click_growth @ ''%'',
            w_target = ''+10%''\<rparr>]
        else if 20 < val click_growth then
          [\<lparr>w_category = ''Growth'', w_priority = ''medium'',
            w_title = ''Capitalize on Momentum'',
            w_description = ''Strong '' @ str_number repr_float click_growth
              @ ''% growth! Now is the time to increase investment and expand reach.'',
            w_action = ''Scale Investment'', w_impact = ''Maximize growth period'',
            w_metric = ''Weekly Growth'', w_current = str_number repr_float click_growth @ ''%'',
            w_target = ''Sustain''\<rparr>]
        else [])
     @ (if ads_generated < 5 then
          [\<lparr>w_category = ''Content'', w_priority = ''medium'',
            w_title = ''Increase Ad Variations'',
            w_description = ''Only '' @ str_int ads_generated
              @ '' ads created this week. More variations improve testing effectiveness.'',
            w_action = ''Generate 5+ Variations'', w_impact = ''+25% optimization potential'',
            w_metric = ''Content Volume'', w_current = str_int ads_generated @ '' ads'',
            w_target = ''10+ ads/week''\<rparr>]
        else [])
     @ (if 0 < val total_spend_w \<and> val (insights_roas ins) < 2 then
          [\<lparr>w_category = ''Budget'', w_priority = ''high'',
            w_title = ''Improve Return on Ad Spend'',
            w_description = ''Current ROAS is '' @ str_number repr_float (insights_roas ins)
              @ ''x. Review targeting and pause low-performing campaigns.'',
            w_action = ''Optimize Budget Allocation'', w_impact = ''+50-100% ROAS improvement'',
            w_metric = ''ROAS'', w_current = str_number repr_float (insights_roas ins) @ ''x'',
            w_target = ''3-5x''\<rparr>]
        else [])
     @ (if active_campaigns = 0 then
          [\<lparr>w_category = ''Campaigns'', w_priority = ''high'',
            w_title = ''Launch Active Campaigns'',
            w_description = ''No active campaigns running. Create and launch campaigns to start generating results.'',
            w_action = ''Create Campaign'', w_impact = ''Begin generating ROI'',
            w_metric = ''Active Campaigns'', w_current = ''0'', w_target = ''3-5''\<rparr>]
        else [])
     @ (case top_campaign of
          None \<Rightarrow> []
        | Some c \<Rightarrow>
            if 70 < performance_score (analytics_summary c) then
              [\<lparr>w_category = ''Scaling'', w_priority = ''medium'',
                w_title = ''Scale Top Performer: '' @ title c,
                w_description = ''This campaign has '' @ str_int (performance_score (analytics_summary c))
                  @ ''/100 score. Allocate more budget.'',
                w_action = ''Increase Budget by 25%'', w_impact = ''+30-50% additional reach'',
                w_metric = ''Performance Score'',
                w_current = str_int (performance_score (analytics_summary c)) @ ''/100'',
                w_target = ''Maximize''\<rparr>]
            else [])"

text \<open>
  The dictionary \<open>priority_order\<close> and the sort key
  \<open>priority_order.get(x['priority'], 3)\<close>.
\<close>

definition priority_order :: "string \<Rightarrow> nat option" where
  "priority_order = map_of [(''high'', 0), (''medium'', 1), (''low'', 2)]"

definition sort_rank :: "recommendation \<Rightarrow> nat" where
  "sort_rank x = (case priority_order (w_priority x) of None \<Rightarrow> 3 | Some k \<Rightarrow> k)"

text \<open>
  \<open>list.sort\<close> is stable, as \<open>sort_key\<close> is; the slice \<open>[:6]\<close> keeps the first six
  entries, or all of a shorter list.
\<close>

definition generate_weekly_recommendations ::
  "(real \<Rightarrow> string) \<Rightarrow> number \<Rightarrow> number \<Rightarrow> number \<Rightarrow> number \<Rightarrow> int \<Rightarrow> int
   \<Rightarrow> Campaign option \<Rightarrow> Campaign option \<Rightarrow> insights \<Rightarrow> recommendation list" where
  "generate_weekly_recommendations repr_float avg_ctr_w conversion_rate_w click_growth total_spend_w
       active_campaigns ads_generated top_campaign worst_campaign ins =
     take 6 (sort_key sort_rank
       (weekly_rules repr_float avg_ctr_w conversion_rate_w click_growth total_spend_w active_campaigns
          ads_generated top_campaign worst_campaign ins))"

section \<open>Concrete inputs\<close>

text \<open>
  A day with 1000 impressions, 50 clicks, 5 conversions and a spend of 50, and the
  summary that \<open>update_metrics\<close> computes from a fresh one while that day is the
  campaign's only row.
\<close>

definition full_day :: DailyAnalytics where
  "full_day =
     DailyAnalytics_save
       \<lparr>d_impressions = 1000, d_clicks = 50, d_conversions = 5, d_spend = 50,
        d_ctr = 0, d_cpc = 0, d_cpa = 0\<rparr>"

definition scored_summary :: CampaignAnalyticsSummary where
  "scored_summary = update_metrics [full_day] new_summary"

text \<open>The two days of the spec's second scenario, each as \<open>save\<close> stores a new row.\<close>

definition day1 :: DailyAnalytics where
  "day1 =
     DailyAnalytics_save
       \<lparr>d_impressions = 1000, d_clicks = 40, d_conversions = 4, d_spend = 100,
        d_ctr = 0, d_cpc = 0, d_cpa = 0\<rparr>"

definition day2 :: DailyAnalytics where
  "day2 =
     DailyAnalytics_save
       \<lparr>d_impressions = 2000, d_clicks = 60, d_conversions = 6, d_spend = 150,
        d_ctr = 0, d_cpc = 0, d_cpa = 0\<rparr>"

text \<open>
  The variations of the spec's third scenario, a test over them whose rows the
  database returns in the order B, A, and the p-value of their table (about
  \<open>4.7e-6\<close>). \<open>var_a_twin\<close> has the counters of \<open>var_a\<close> under the name B: the
  chi-square statistic of two equal rows is 0, its p-value 1.
\<close>

definition var_a :: ABTestVariation where
  "var_a = \<lparr>name = ''A'', impressions = 8500, clicks = 340, conversions = 17, spend = 0\<rparr>"

definition var_b :: ABTestVariation where
  "var_b = \<lparr>name = ''B'', impressions = 8500, clicks = 468, conversions = 23, spend = 0\<rparr>"

definition var_a_twin :: ABTestVariation where
  "var_a_twin = \<lparr>name = ''B'', impressions = 8500, clicks = 340, conversions = 17, spend = 0\<rparr>"

definition chi2_scenario :: chi2_contingency where
  "chi2_scenario =
     chi2_lookup [([[340, 8160], [468, 8032]], 47 / 10000000), ([[340, 8160], [340, 8160]], 1)]"

definition test_ab :: ABTest where
  "test_ab =
     \<lparr>status = ''running'', success_metric = ''ctr'', min_sample_size = 1000, winner = Some [],
      is_significant = False, p_value = None, variations = [var_b, var_a]\<rparr>"

definition test_twins :: ABTest where
  "test_twins =
     \<lparr>status = ''running'', success_metric = ''ctr'', min_sample_size = 1000, winner = Some [],
      is_significant = False, p_value = None, variations = [var_a, var_a_twin]\<rparr>"

text \<open>
  A draft of the same test, and the spec's fourth scenario: a running test with a floor
  of 1000 whose variation A has 500 impressions.
\<close>

definition test_draft :: ABTest where
  "test_draft = test_ab\<lparr>status := ''draft''\<rparr>"

definition var_a_small :: ABTestVariation where
  "var_a_small = \<lparr>name = ''A'', impressions = 500, clicks = 20, conversions = 1, spend = 0\<rparr>"

definition test_small :: ABTest where
  "test_small = test_ab\<lparr>variations := [var_a_small, var_b]\<rparr>"

text \<open>
  A variation that has not been shown yet, and two variations with a million impressions
  each, one with 40 clicks and one with none; the p-value of their table is about
  \<open>7e-10\<close>.
\<close>

definition var_new :: ABTestVariation where
  "var_new = \<lparr>name = ''A'', impressions = 0, clicks = 0, conversions = 0, spend = 0\<rparr>"

definition var_few_clicks :: ABTestVariation where
  "var_few_clicks = \<lparr>name = ''A'', impressions = 1000000, clicks = 40, conversions = 0, spend = 0\<rparr>"

definition var_no_clicks :: ABTestVariation where
  "var_no_clicks = \<lparr>name = ''B'', impressions = 1000000, clicks = 0, conversions = 0, spend = 0\<rparr>"

definition chi2_few_clicks :: chi2_contingency where
  "chi2_few_clicks = chi2_lookup [([[40, 999960], [0, 1000000]], 7 / 10000000000)]"

text \<open>
  What the service returns and stores for the two tests: the comparison of \<open>var_a\<close>
  with \<open>var_b\<close>, the test \<open>test_ab\<close> after the three assignments, and the comparison of
  \<open>var_a\<close> with its twin.
\<close>

definition res_ab :: significance where
  "res_ab =
     \<lparr>significant = True, res_p_value = 47 / 10000000, res_winner = Some ''B'',
      confidence = Some ((1 - 47 / 10000000) * 100), metric_a = Some 4, metric_b = Some (551 / 100),
      improvement = Some (151 / 551 * 100)\<rparr>"

definition test_ab_decided :: ABTest where
  "test_ab_decided =
     test_ab\<lparr>winner := Some ''B'', is_significant := True, p_value := Some (47 / 10000000)\<rparr>"

definition res_twins :: significance where
  "res_twins =
     \<lparr>significant = False, res_p_value = 1, res_winner = None, confidence = Some 0,
      metric_a = Some 4, metric_b = Some 4, improvement = Some 0\<rparr>"

text \<open>
  Two further variations of 8500 impressions without a click, and a running test over
  the four variations A, B, C, D. The chi-square function lists the tables of the five
  pairs with a click (p about \<open>4.7e-6\<close>, \<open>5.5e-77\<close> and \<open>3.2e-106\<close>); on the table
  of C and D, whose first column is zero, scipy raises \<open>ValueError\<close> (an expected
  frequency is zero), as the function does on every table it does not list.
\<close>

definition var_c :: ABTestVariation where
  "var_c = \<lparr>name = ''C'', impressions = 8500, clicks = 0, conversions = 0, spend = 0\<rparr>"

definition var_d :: ABTestVariation where
  "var_d = \<lparr>name = ''D'', impressions = 8500, clicks = 0, conversions = 0, spend = 0\<rparr>"

definition chi2_four :: chi2_contingency where
  "chi2_four =
     chi2_lookup
       [([[340, 8160], [468, 8032]], 47 / 10000000),
        ([[340, 8160], [0, 8500]], 55 / 10 ^ 78),
        ([[468, 8032], [0, 8500]], 32 / 10 ^ 107)]"

definition test_four :: ABTest where
  "test_four = test_ab\<lparr>variations := [var_a, var_b, var_c, var_d]\<rparr>"

text \<open>
  A week in which all seven rules fire: a CTR of 5.5, a conversion rate of 2, a click
  growth of 25, a spend of 100 at a ROAS of 1.5, no active campaign, three ads, and a
  top campaign with a score of 80.
\<close>

definition top_scorer :: Campaign where
  "top_scorer = \<lparr>title = ''Spring Sale'', analytics_summary = new_summary\<lparr>performance_score := 80\<rparr>\<rparr>"

section \<open>The summary recomputation\<close>

text \<open>The performance score reads the three rates only.\<close>

lemma score_cong:
  "avg_ctr a = avg_ctr b \<Longrightarrow> avg_conversion_rate a = avg_conversion_rate b \<Longrightarrow> roas a = roas b
   \<Longrightarrow> calculate_performance_score a = calculate_performance_score b"
  by (simp add: calculate_performance_score_def)

lemma score_upd:
  "calculate_performance_score (x\<lparr>performance_score := v\<rparr>) = calculate_performance_score x"
  by (rule score_cong) simp_all

text \<open>
  Each field of the recomputed summary: the totals are the sums over the rows, a rate is
  recomputed when its denominator is positive and is the old one otherwise.
\<close>

lemma um_total_impressions:
  "total_impressions (update_metrics ds s) = sum_list (map d_impressions ds)"
  by (simp add: update_metrics_def Let_def)

lemma um_total_clicks:
  "total_clicks (update_metrics ds s) = sum_list (map d_clicks ds)"
  by (simp add: update_metrics_def Let_def)

lemma um_total_conversions:
  "total_conversions (update_metrics ds s) = sum_list (map d_conversions ds)"
  by (simp add: update_metrics_def Let_def)

lemma um_total_spend:
  "total_spend (update_metrics ds s) = sum_list (map d_spend ds)"
  by (simp add: update_metrics_def Let_def)

lemma um_avg_ctr:
  "avg_ctr (update_metrics ds s) =
     (if 0 < sum_list (map d_impressions ds)
      then round_py (of_int (sum_list (map d_clicks ds)) / of_int (sum_list (map d_impressions ds)) * 100) 2
      else avg_ctr s)"
  by (simp add: update_metrics_def Let_def)

lemma um_avg_cpc:
  "avg_cpc (update_metrics ds s) =
     (if 0 < sum_list (map d_clicks ds)
      then round_py (sum_list (map d_spend ds) / of_int (sum_list (map d_clicks ds))) 2
      else avg_cpc s)"
  by (simp add: update_metrics_def Let_def)

lemma um_avg_conversion_rate:
  "avg_conversion_rate (update_metrics ds s) =
     (if 0 < sum_list (map d_clicks ds)
      then round_py (of_int (sum_list (map d_conversions ds)) / of_int (sum_list (map d_clicks ds)) * 100) 2
      else avg_conversion_rate s)"
  by (simp add: update_metrics_def Let_def)

lemma um_roas:
  "roas (update_metrics ds s) =
     (if 0 < sum_list (map d_spend ds)
      then round_py (of_int (sum_list (map d_conversions ds) * 50) / sum_list (map d_spend ds)) 2
      else roas s)"
  by (simp add: update_metrics_def Let_def)

lemma um_score:
  "performance_score (update_metrics ds s) = calculate_performance_score (update_metrics ds s)"
  by (simp add: update_metrics_def Let_def score_upd)

lemmas um_fields = um_total_impressions um_total_clicks um_total_conversions um_total_spend
  um_avg_ctr um_avg_cpc um_avg_conversion_rate um_roas

lemmas round_defs = round_py_def round_half_even_def Let_def

lemma full_day_eq:
  "full_day =
     \<lparr>d_impressions = 1000, d_clicks = 50, d_conversions = 5, d_spend = 50,
      d_ctr = 5, d_cpc = 1, d_cpa = 10\<rparr>"
  by (simp add: full_day_def DailyAnalytics_save_def round_defs)

lemma day1_eq:
  "day1 =
     \<lparr>d_impressions = 1000, d_clicks = 40, d_conversions = 4, d_spend = 100,
      d_ctr = 4, d_cpc = 5 / 2, d_cpa = 25\<rparr>"
  by (simp add: day1_def DailyAnalytics_save_def round_defs)

lemma day2_eq:
  "day2 =
     \<lparr>d_impressions = 2000, d_clicks = 60, d_conversions = 6, d_spend = 150,
      d_ctr = 3, d_cpc = 5 / 2, d_cpa = 25\<rparr>"
  by (simp add: day2_def DailyAnalytics_save_def round_defs)

lemma scored_fields:
  "avg_ctr scored_summary = 5" "avg_conversion_rate scored_summary = 10" "roas scored_summary = 5"
  by (simp_all add: scored_summary_def um_fields full_day_eq round_defs)

text \<open>
  Claim C1 says that recomputing the summary of a campaign without rows leaves the four
  totals and the performance score at zero, whatever the summary held before. The
  totals are zero, the score is not: \<open>scored_summary\<close> is the summary of a campaign whose
  only row is \<open>full_day\<close>, with a score of 100; once that row is deleted the
  recomputation runs over no rows, skips the three guarded blocks, keeps the old rates
  and computes the score from them, 100 again.
\<close>

theorem update_metrics_empty_keeps_score:
  "performance_score scored_summary = 100
   \<and> total_impressions (update_metrics [] scored_summary) = 0
   \<and> total_clicks (update_metrics [] scored_summary) = 0
   \<and> total_conversions (update_metrics [] scored_summary) = 0
   \<and> total_spend (update_metrics [] scored_summary) = 0
   \<and> performance_score (update_metrics [] scored_summary) = 100"
proof -
  have "performance_score scored_summary = 100"
    unfolding scored_summary_def um_score
    by (simp add: calculate_performance_score_def scored_fields [unfolded scored_summary_def])
  moreover have "performance_score (update_metrics [] scored_summary) = 100"
    unfolding um_score
    by (simp add: calculate_performance_score_def um_fields scored_fields)
  ultimately show ?thesis by (simp add: um_fields)
qed

text \<open>
  Claim C2 says that after \<open>save\<close> the derived fields are the rounded quotients, and zero
  where the denominator is zero, also on an upsert that overwrites positive counters.
  The stored row \<open>day1\<close> has \<open>ctr = 4\<close>, \<open>cpc = 2.5\<close> and \<open>cpa = 25\<close>; an upsert that
  replaces its four counters by zeros saves the row with these three values unchanged.
\<close>

theorem save_zero_counters_keeps_rates:
  "update_or_create day1 0 0 0 0 =
     \<lparr>d_impressions = 0, d_clicks = 0, d_conversions = 0, d_spend = 0,
      d_ctr = 4, d_cpc = 5 / 2, d_cpa = 25\<rparr>"
  by (simp add: day1_eq update_or_create_def DailyAnalytics_save_def)

text \<open>
  Claim C4: for any rows and any summary, recomputing a second time over the same rows
  returns the summary of the first recomputation, field by field (totals, the four
  rates, the performance score).
\<close>

theorem update_metrics_idempotent:
  "update_metrics ds (update_metrics ds s) = update_metrics ds s"
proof (rule CampaignAnalyticsSummary.equality)
  show "performance_score (update_metrics ds (update_metrics ds s)) =
        performance_score (update_metrics ds s)"
    unfolding um_score
    by (rule score_cong) (simp_all add: um_avg_ctr um_avg_conversion_rate um_roas)
qed (simp_all add: um_fields)

text \<open>
  Claim C8: over the two rows \<open>day1\<close> (1000 impressions, 40 clicks, 4 conversions, spend
  100) and \<open>day2\<close> (2000, 60, 6, 150) the recomputation gives, from any summary, the
  totals 3000, 100, 10 and 250, \<open>avg_ctr = 3.33\<close> (from the totals: the mean of the two
  daily rates is 3.5), \<open>roas = 2\<close> at a revenue of 50 per conversion, and a performance
  score of 70.
\<close>

theorem two_day_scenario:
  "total_impressions (update_metrics [day1, day2] s) = 3000
   \<and> total_clicks (update_metrics [day1, day2] s) = 100
   \<and> total_conversions (update_metrics [day1, day2] s) = 10
   \<and> total_spend (update_metrics [day1, day2] s) = 250
   \<and> avg_ctr (update_metrics [day1, day2] s) = 333 / 100
   \<and> avg_ctr (update_metrics [day1, day2] s) \<noteq> (d_ctr day1 + d_ctr day2) / 2
   \<and> roas (update_metrics [day1, day2] s) = 2
   \<and> performance_score (update_metrics [day1, day2] s) = 70"
proof -
  have c: "avg_ctr (update_metrics [day1, day2] s) = 333 / 100"
    by (simp add: um_avg_ctr day1_eq day2_eq round_defs)
  have r: "roas (update_metrics [day1, day2] s) = 2"
    by (simp add: um_roas day1_eq day2_eq round_defs)
  have v: "avg_conversion_rate (update_metrics [day1, day2] s) = 10"
    by (simp add: um_avg_conversion_rate day1_eq day2_eq round_defs)
  have p: "performance_score (update_metrics [day1, day2] s) = 70"
    unfolding um_score by (simp add: calculate_performance_score_def c r v)
  have m: "(d_ctr day1 + d_ctr day2) / 2 = 7 / 2"
    by (simp add: day1_eq day2_eq)
  show ?thesis
    unfolding c r p m by (simp add: um_fields day1_eq day2_eq)
qed

section \<open>The significance test\<close>

text \<open>
  Claim C5: for every two variations and every chi-square function, when the metric is
  \<open>ctr\<close> and one of the variations has no impressions, or the metric is
  \<open>conversion_rate\<close> and one of them has no clicks, the result is \<open>significant = False\<close>,
  \<open>p_value = 1.0\<close>, \<open>winner = None\<close>, \<open>confidence = 0\<close> (and zero metrics and improvement).
  The result is the same for every chi-square function, also for one that always
  raises: the chi-square test is not run.
\<close>

theorem significance_short_circuit:
  assumes "(m = ''ctr'' \<and> (impressions a = 0 \<or> impressions b = 0))
           \<or> (m = ''conversion_rate'' \<and> (clicks a = 0 \<or> clicks b = 0))"
  shows "calculate_statistical_significance chi2 a b m =
           Inr \<lparr>significant = False, res_p_value = 1, res_winner = None, confidence = Some 0,
                metric_a = Some 0, metric_b = Some 0, improvement = Some 0\<rparr>"
  using assms by (auto simp: calculate_statistical_significance_def Let_def)

theorem significance_short_circuit_witness:
  "impressions var_new = 0 \<and> clicks var_new = 0
   \<and> calculate_statistical_significance (chi2_lookup []) var_new var_b ''ctr'' =
       Inr \<lparr>significant = False, res_p_value = 1, res_winner = None, confidence = Some 0,
            metric_a = Some 0, metric_b = Some 0, improvement = Some 0\<rparr>
   \<and> calculate_statistical_significance (chi2_lookup []) var_b var_new ''conversion_rate'' =
       Inr \<lparr>significant = False, res_p_value = 1, res_winner = None, confidence = Some 0,
            metric_a = Some 0, metric_b = Some 0, improvement = Some 0\<rparr>"
proof -
  have i: "impressions var_new = 0" and c: "clicks var_new = 0"
    by (simp_all add: var_new_def)
  from i have h1: "(''ctr'' = ''ctr'' \<and> (impressions var_new = 0 \<or> impressions var_b = 0))
           \<or> (''ctr'' = ''conversion_rate'' \<and> (clicks var_new = 0 \<or> clicks var_b = 0))"
    by simp
  from c have h2: "(''conversion_rate'' = ''ctr'' \<and> (impressions var_b = 0 \<or> impressions var_new = 0))
           \<or> (''conversion_rate'' = ''conversion_rate'' \<and> (clicks var_b = 0 \<or> clicks var_new = 0))"
    by simp
  show ?thesis
    using i c significance_short_circuit [OF h1, of "chi2_lookup []"]
      significance_short_circuit [OF h2, of "chi2_lookup []"]
    by simp
qed

text \<open>A result that is not significant names no winner; a significant one names A or B.\<close>

lemma winner_only_when_significant:
  assumes "calculate_statistical_significance chi2 a b m = Inr r"
  shows "(\<not> significant r \<longrightarrow> res_winner r = None)
         \<and> (significant r \<longrightarrow> res_winner r = Some ''A'' \<or> res_winner r = Some ''B'')"
  using assms
  by (auto simp: calculate_statistical_significance_def Let_def split: if_splits sum.splits)

lemma ctr_few_clicks: "ctr var_few_clicks = 0" "ctr var_no_clicks = 0"
  by (simp_all add: ctr_def var_few_clicks_def var_no_clicks_def round_defs)

text \<open>
  Claim C6 says that a significant result names as winner the variation whose metric
  exceeds the other's. With a million impressions each, 40 clicks for A and none for B,
  the difference is significant (p about \<open>7e-10\<close>), both \<open>ctr\<close> properties round to
  \<open>0.0\<close>, the test \<open>ctr_a > ctr_b\<close> fails and the winner is B, the variation without a
  click, with an improvement of 0.
\<close>

theorem tie_names_b_winner:
  "clicks var_no_clicks < clicks var_few_clicks
   \<and> impressions var_no_clicks = impressions var_few_clicks
   \<and> calculate_statistical_significance chi2_few_clicks var_few_clicks var_no_clicks ''ctr'' =
       Inr \<lparr>significant = True, res_p_value = 7 / 10000000000, res_winner = Some ''B'',
            confidence = Some ((1 - 7 / 10000000000) * 100), metric_a = Some 0, metric_b = Some 0,
            improvement = Some 0\<rparr>"
proof -
  have chi: "chi2_few_clicks [[40, 999960], [0, 1000000]] = Inr (7 / 10000000000)"
    by (simp add: chi2_few_clicks_def chi2_lookup_def)
  have f: "impressions var_few_clicks = 1000000" "clicks var_few_clicks = 40"
    "impressions var_no_clicks = 1000000" "clicks var_no_clicks = 0"
    by (simp_all add: var_few_clicks_def var_no_clicks_def)
  show ?thesis
    by (simp add: calculate_statistical_significance_def Let_def ctr_few_clicks f chi)
qed

section \<open>The analysis of a test\<close>

lemma below_floor_loop_iff:
  "below_floor_loop m vs \<longleftrightarrow> (\<forall>v\<in>set vs. \<not> impressions v < m)"
  by (induction vs) auto

lemma check_minimum_sample_size_iff:
  "check_minimum_sample_size t \<longleftrightarrow> (\<forall>v\<in>set (variations t). \<not> impressions v < min_sample_size t)"
  by (simp add: check_minimum_sample_size_def below_floor_loop_iff)

lemma length_order_by_name: "length (order_by_name vs) = length vs"
  by (simp add: order_by_name_def)

text \<open>The first entry of the results compares the first two variations of the list.\<close>

lemma compare_pairs_first:
  assumes "compare_pairs chi2 m (a # b # rest) = Inr results"
  shows "\<exists>r rs. results = \<lparr>variation_a = name a, variation_b = name b, result = r\<rparr> # rs
           \<and> calculate_statistical_significance chi2 a b m = Inr r"
  using assms by (auto split: sum.splits)

lemma two_or_more: "2 \<le> length vs \<Longrightarrow> \<exists>a b rest. vs = a # b # rest"
  by (cases vs; cases "tl vs") auto

text \<open>
  A running test over at least two variations that all meet the floor, whose
  comparisons all return: the outcome is decided by the first entry of the results.
\<close>

lemma analyze_test_decided:
  assumes "status t = ''running''" "check_minimum_sample_size t" "2 \<le> length (variations t)"
    and "compare_pairs chi2 (success_metric t) (order_by_name (variations t)) = Inr results"
  shows "results \<noteq> []"
    and "calculate_statistical_significance chi2 (order_by_name (variations t) ! 0)
           (order_by_name (variations t) ! 1) (success_metric t) = Inr (result (hd results))"
    and "analyze_test chi2 t =
          (if significant (result (hd results)) then
             Inr (Completed (res_winner (result (hd results))) True (result (hd results)),
                  t\<lparr>winner := res_winner (result (hd results)), is_significant := True,
                    p_value := Some (res_p_value (result (hd results)))\<rparr>)
           else Inr (Inconclusive ''No statistically significant winner yet'' results, t))"
proof -
  from assms(3) have "2 \<le> length (order_by_name (variations t))"
    by (simp add: length_order_by_name)
  then obtain a b rest where vs: "order_by_name (variations t) = a # b # rest"
    using two_or_more by blast
  from assms(4) [unfolded vs] obtain r rs
    where rs: "results = \<lparr>variation_a = name a, variation_b = name b, result = r\<rparr> # rs"
      and r: "calculate_statistical_significance chi2 a b (success_metric t) = Inr r"
    using compare_pairs_first by blast
  show "results \<noteq> []" by (simp add: rs)
  show "calculate_statistical_significance chi2 (order_by_name (variations t) ! 0)
           (order_by_name (variations t) ! 1) (success_metric t) = Inr (result (hd results))"
    by (simp add: vs rs r)
  show "analyze_test chi2 t =
          (if significant (result (hd results)) then
             Inr (Completed (res_winner (result (hd results))) True (result (hd results)),
                  t\<lparr>winner := res_winner (result (hd results)), is_significant := True,
                    p_value := Some (res_p_value (result (hd results)))\<rparr>)
           else Inr (Inconclusive ''No statistically significant winner yet'' results, t))"
    using assms(1,2,3,4) by (simp add: analyze_test_def Let_def length_order_by_name rs)
qed

text \<open>
  Claim C7: for every test and every chi-square function, a test that is not running
  gets the error result \<open>Test is not running\<close>, and a running test with a variation
  below \<open>min_sample_size\<close> gets the status \<open>insufficient_data\<close> with a message that
  names the floor; in both cases the test object is returned as it was passed, so its
  winner, \<open>is_significant\<close>, \<open>p_value\<close> and status are unchanged.
\<close>

theorem analyze_test_guards:
  "(status t \<noteq> ''running'' \<longrightarrow> analyze_test chi2 t = Inr (Error_result ''Test is not running'', t))
   \<and> (status t = ''running'' \<and> (\<exists>v\<in>set (variations t). impressions v < min_sample_size t) \<longrightarrow>
        analyze_test chi2 t =
          Inr (Insufficient_data
                 (''Need at least '' @ str_int (min_sample_size t) @ '' impressions per variation''), t))"
  by (auto simp: analyze_test_def check_minimum_sample_size_iff)

lemma str_int_1000: "str_int 1000 = ''1000''"
  by code_simp

theorem analyze_test_guards_witness:
  "status test_draft \<noteq> ''running''
   \<and> analyze_test chi2_scenario test_draft = Inr (Error_result ''Test is not running'', test_draft)
   \<and> status test_small = ''running''
   \<and> var_a_small \<in> set (variations test_small)
   \<and> impressions var_a_small < min_sample_size test_small
   \<and> analyze_test chi2_scenario test_small =
       Inr (Insufficient_data ''Need at least 1000 impressions per variation'', test_small)
   \<and> winner test_small = Some []"
proof -
  have d: "status test_draft \<noteq> ''running''"
    by (simp add: test_draft_def)
  have s: "status test_small = ''running''" "var_a_small \<in> set (variations test_small)"
    "impressions var_a_small < min_sample_size test_small" "min_sample_size test_small = 1000"
    "winner test_small = Some []"
    by (simp_all add: test_small_def test_ab_def var_a_small_def)
  from s have e: "status test_small = ''running''
      \<and> (\<exists>v\<in>set (variations test_small). impressions v < min_sample_size test_small)"
    by blast
  from analyze_test_guards [of test_draft chi2_scenario] d
  have 1: "analyze_test chi2_scenario test_draft = Inr (Error_result ''Test is not running'', test_draft)"
    by blast
  from analyze_test_guards [of test_small chi2_scenario] e
  have 2: "analyze_test chi2_scenario test_small =
       Inr (Insufficient_data ''Need at least 1000 impressions per variation'', test_small)"
    by (simp add: s str_int_1000)
  from d s 1 2 show ?thesis by simp
qed

text \<open>The two concrete tests: name order, rounded rates, comparisons.\<close>

lemma order_ab: "order_by_name (variations test_ab) = [var_a, var_b]"
  by (simp add: order_by_name_def test_ab_def var_a_def var_b_def)

lemma order_twins: "order_by_name (variations test_twins) = [var_a, var_a_twin]"
  by (simp add: order_by_name_def test_twins_def var_a_def var_a_twin_def)

lemma ctr_vars: "ctr var_a = 4" "ctr var_b = 551 / 100" "ctr var_a_twin = 4"
  by (simp_all add: ctr_def var_a_def var_b_def var_a_twin_def round_defs)

lemma var_fields:
  "impressions var_a = 8500" "clicks var_a = 340" "impressions var_b = 8500" "clicks var_b = 468"
  "impressions var_a_twin = 8500" "clicks var_a_twin = 340"
  "name var_a = ''A''" "name var_b = ''B''" "name var_a_twin = ''B''"
  by (simp_all add: var_a_def var_b_def var_a_twin_def)

lemma calc_ab: "calculate_statistical_significance chi2_scenario var_a var_b ''ctr'' = Inr res_ab"
proof -
  have chi: "chi2_scenario [[340, 8160], [468, 8032]] = Inr (47 / 10000000)"
    by (simp add: chi2_scenario_def chi2_lookup_def)
  show ?thesis
    by (simp add: calculate_statistical_significance_def Let_def ctr_vars var_fields chi res_ab_def)
qed

lemma calc_twins:
  "calculate_statistical_significance chi2_scenario var_a var_a_twin ''ctr'' = Inr res_twins"
proof -
  have chi: "chi2_scenario [[340, 8160], [340, 8160]] = Inr 1"
    by (simp add: chi2_scenario_def chi2_lookup_def)
  show ?thesis
    by (simp add: calculate_statistical_significance_def Let_def ctr_vars var_fields chi res_twins_def)
qed

lemma test_ab_fields:
  "status test_ab = ''running''" "success_metric test_ab = ''ctr''" "check_minimum_sample_size test_ab"
  "2 \<le> length (variations test_ab)" "is_significant test_ab = False"
  by (simp_all add: test_ab_def check_minimum_sample_size_def var_a_def var_b_def)

lemma test_twins_fields:
  "status test_twins = ''running''" "success_metric test_twins = ''ctr''"
  "check_minimum_sample_size test_twins" "2 \<le> length (variations test_twins)"
  by (simp_all add: test_twins_def check_minimum_sample_size_def var_a_def var_a_twin_def)

lemma pairs_ab:
  "compare_pairs chi2_scenario (success_metric test_ab) (order_by_name (variations test_ab)) =
     Inr [\<lparr>variation_a = ''A'', variation_b = ''B'', result = res_ab\<rparr>]"
  by (simp add: order_ab test_ab_fields calc_ab var_fields)

lemma pairs_twins:
  "compare_pairs chi2_scenario (success_metric test_twins) (order_by_name (variations test_twins)) =
     Inr [\<lparr>variation_a = ''A'', variation_b = ''B'', result = res_twins\<rparr>]"
  by (simp add: order_twins test_twins_fields calc_twins var_fields)

lemma res_fields:
  "significant res_ab" "res_winner res_ab = Some ''B''" "res_p_value res_ab = 47 / 10000000"
  "improvement res_ab = Some (151 / 551 * 100)" "\<not> significant res_twins"
  by (simp_all add: res_ab_def res_twins_def)

text \<open>
  Claim C3 says that when the first pairwise comparison is significant the status of the
  test changes to \<open>completed\<close>. It does not: for the test \<open>test_ab\<close> (running, both
  variations above the floor, first comparison significant) \<open>analyze_test\<close> returns a
  dictionary whose \<open>status\<close> is \<open>completed\<close> and stores the winner, \<open>is_significant\<close> and
  the p-value, but the status of the stored test is still \<open>running\<close>.
\<close>

theorem analyze_test_keeps_status_running:
  "status test_ab = ''running'' \<and> check_minimum_sample_size test_ab \<and> 2 \<le> length (variations test_ab)
   \<and> calculate_statistical_significance chi2_scenario (order_by_name (variations test_ab) ! 0)
        (order_by_name (variations test_ab) ! 1) (success_metric test_ab) = Inr res_ab
   \<and> significant res_ab
   \<and> analyze_test chi2_scenario test_ab = Inr (Completed (Some ''B'') True res_ab, test_ab_decided)
   \<and> status test_ab_decided = ''running''
   \<and> status test_ab_decided \<noteq> ''completed''"
proof -
  have "analyze_test chi2_scenario test_ab = Inr (Completed (Some ''B'') True res_ab, test_ab_decided)"
    using analyze_test_decided(3) [OF test_ab_fields(1,3,4) pairs_ab]
    by (simp add: res_fields test_ab_decided_def)
  moreover have "status test_ab_decided = ''running''"
    by (simp add: test_ab_decided_def test_ab_def)
  ultimately show ?thesis
    by (simp add: test_ab_fields order_ab calc_ab res_fields)
qed

text \<open>
  Claim C3, amended: for every running test whose variations all meet the sample-size
  floor, with at least two variations, and whose pairwise comparisons (pairs \<open>i < j\<close>
  over the variations in name order) all return: the first entry of the results is the
  comparison of the first two variations in name order; if it is significant,
  \<open>analyze_test\<close> returns a result of status \<open>completed\<close> with that comparison's winner
  and stores this winner, \<open>is_significant = True\<close> and its p-value on the test, whose own
  status stays \<open>running\<close>; if no pairwise comparison is significant, it returns the
  status \<open>inconclusive\<close> with all pairwise results and leaves the test as it was.
\<close>

theorem analyze_test_decision:
  assumes "status t = ''running''" and "check_minimum_sample_size t" and "2 \<le> length (variations t)"
    and "compare_pairs chi2 (success_metric t) (order_by_name (variations t)) = Inr results"
  shows "calculate_statistical_significance chi2 (order_by_name (variations t) ! 0)
           (order_by_name (variations t) ! 1) (success_metric t) = Inr (result (hd results))
       \<and> (significant (result (hd results)) \<longrightarrow>
            analyze_test chi2 t =
              Inr (Completed (res_winner (result (hd results))) True (result (hd results)),
                   t\<lparr>winner := res_winner (result (hd results)), is_significant := True,
                     p_value := Some (res_p_value (result (hd results)))\<rparr>)
            \<and> status (t\<lparr>winner := res_winner (result (hd results)), is_significant := True,
                        p_value := Some (res_p_value (result (hd results)))\<rparr>) = ''running'')
       \<and> ((\<forall>r\<in>set results. \<not> significant (result r)) \<longrightarrow>
            analyze_test chi2 t = Inr (Inconclusive ''No statistically significant winner yet'' results, t))"
proof -
  note d = analyze_test_decided [OF assms]
  from d(1) have "hd results \<in> set results" by simp
  then have "(\<forall>r\<in>set results. \<not> significant (result r)) \<longrightarrow> \<not> significant (result (hd results))"
    by blast
  with d(2,3) assms(1) show ?thesis by simp
qed

theorem analyze_test_decision_witness:
  "status test_ab = ''running'' \<and> check_minimum_sample_size test_ab \<and> 2 \<le> length (variations test_ab)
   \<and> compare_pairs chi2_scenario (success_metric test_ab) (order_by_name (variations test_ab)) =
       Inr [\<lparr>variation_a = ''A'', variation_b = ''B'', result = res_ab\<rparr>]
   \<and> significant res_ab
   \<and> analyze_test chi2_scenario test_ab = Inr (Completed (Some ''B'') True res_ab, test_ab_decided)
   \<and> status test_twins = ''running'' \<and> check_minimum_sample_size test_twins
   \<and> 2 \<le> length (variations test_twins)
   \<and> compare_pairs chi2_scenario (success_metric test_twins) (order_by_name (variations test_twins)) =
       Inr [\<lparr>variation_a = ''A'', variation_b = ''B'', result = res_twins\<rparr>]
   \<and> \<not> significant res_twins
   \<and> analyze_test chi2_scenario test_twins =
       Inr (Inconclusive ''No statistically significant winner yet''
              [\<lparr>variation_a = ''A'', variation_b = ''B'', result = res_twins\<rparr>], test_twins)"
proof -
  have 1: "analyze_test chi2_scenario test_ab = Inr (Completed (Some ''B'') True res_ab, test_ab_decided)"
    using analyze_test_decision [OF test_ab_fields(1,3,4) pairs_ab]
    by (simp add: res_fields test_ab_decided_def)
  have 2: "analyze_test chi2_scenario test_twins =
       Inr (Inconclusive ''No statistically significant winner yet''
              [\<lparr>variation_a = ''A'', variation_b = ''B'', result = res_twins\<rparr>], test_twins)"
    using analyze_test_decision [OF test_twins_fields(1,3,4) pairs_twins]
    by (simp add: res_fields)
  from 1 2 test_ab_fields(1,3,4) test_twins_fields(1,3,4) pairs_ab pairs_twins res_fields(1,5)
  show ?thesis by blast
qed

text \<open>
  When all pairwise comparisons return and the first one is significant,
  \<open>get_recommendation\<close> returns the action recommendation together with the test as
  \<open>analyze_test\<close> has stored it: winner, \<open>is_significant = True\<close> and p-value set from
  the first comparison. The query is not read-only.
\<close>

lemma get_recommendation_persists_winner:
  assumes "status t = ''running''" and "check_minimum_sample_size t" and "2 \<le> length (variations t)"
    and "compare_pairs chi2 (success_metric t) (order_by_name (variations t)) = Inr results"
    and "significant (result (hd results))"
  shows "get_recommendation chi2 t =
           Inr (recommend_for (Completed (res_winner (result (hd results))) True (result (hd results))),
                t\<lparr>winner := res_winner (result (hd results)), is_significant := True,
                  p_value := Some (res_p_value (result (hd results)))\<rparr>)"
  using analyze_test_decided(3) [OF assms(1-4)] assms(5)
  by (simp add: get_recommendation_def)

lemma format_improvement: "format_1f (15100 / 551) = ''27.4''"
  by code_simp

lemma get_recommendation_example:
  "get_recommendation chi2_scenario test_ab =
     Inr ([\<lparr>rec_type = ''action'',
            rec_message = ''Variation B is the clear winner with 27.4% improvement. Implement this variation.'',
            rec_priority = ''high''\<rparr>], test_ab_decided)
   \<and> test_ab_decided \<noteq> test_ab"
proof -
  have s: "significant (result (hd [\<lparr>variation_a = ''A'', variation_b = ''B'', result = res_ab\<rparr>]))"
    by (simp add: res_fields)
  have 1: "get_recommendation chi2_scenario test_ab =
       Inr ([\<lparr>rec_type = ''action'',
              rec_message = ''Variation B is the clear winner with 27.4% improvement. Implement this variation.'',
              rec_priority = ''high''\<rparr>], test_ab_decided)"
    using get_recommendation_persists_winner [OF test_ab_fields(1,3,4) pairs_ab s]
    by (simp add: res_fields test_ab_decided_def str_winner_def format_improvement)
  have 2: "test_ab_decided \<noteq> test_ab"
  proof
    assume "test_ab_decided = test_ab"
    then have "is_significant test_ab_decided = is_significant test_ab" by simp
    then show False by (simp add: test_ab_decided_def test_ab_def)
  qed
  from 1 2 show ?thesis by blast
qed

text \<open>The test over four variations: name order, fields, comparisons.\<close>

lemma order_four: "order_by_name (variations test_four) = [var_a, var_b, var_c, var_d]"
  by (simp add: order_by_name_def test_four_def test_ab_def var_a_def var_b_def var_c_def var_d_def)

lemma cd_fields:
  "impressions var_c = 8500" "clicks var_c = 0" "impressions var_d = 8500" "clicks var_d = 0"
  "name var_c = ''C''" "name var_d = ''D''"
  by (simp_all add: var_c_def var_d_def)

lemma chi2_four_tables:
  "chi2_four [[340, 8160], [468, 8032]] = Inr (47 / 10000000)"
  "chi2_four [[340, 8160], [0, 8500]] = Inr (55 / 10 ^ 78)"
  "chi2_four [[468, 8032], [0, 8500]] = Inr (32 / 10 ^ 107)"
  "chi2_four [[0, 8500], [0, 8500]] = Inl ValueError"
  by (simp_all add: chi2_four_def chi2_lookup_def)

lemma calc_four_ab: "calculate_statistical_significance chi2_four var_a var_b ''ctr'' = Inr res_ab"
  by (simp add: calculate_statistical_significance_def Let_def ctr_vars var_fields chi2_four_tables res_ab_def)

lemma calc_four_cd: "calculate_statistical_significance chi2_four var_c var_d ''ctr'' = Inl ValueError"
  by (simp add: calculate_statistical_significance_def Let_def cd_fields chi2_four_tables)

lemma calc_four_returns:
  "\<exists>r. calculate_statistical_significance chi2_four var_a var_c ''ctr'' = Inr r"
  "\<exists>r. calculate_statistical_significance chi2_four var_a var_d ''ctr'' = Inr r"
  "\<exists>r. calculate_statistical_significance chi2_four var_b var_c ''ctr'' = Inr r"
  "\<exists>r. calculate_statistical_significance chi2_four var_b var_d ''ctr'' = Inr r"
  by (simp_all add: calculate_statistical_significance_def Let_def var_fields cd_fields chi2_four_tables)

text \<open>The loop runs all six pairs; the sixth, C with D, raises.\<close>

lemma pairs_four:
  "compare_pairs chi2_four ''ctr'' [var_a, var_b, var_c, var_d] = Inl ValueError"
  using calc_four_returns by (auto simp: calc_four_ab calc_four_cd)

lemma test_four_fields:
  "status test_four = ''running''" "success_metric test_four = ''ctr''"
  "check_minimum_sample_size test_four" "length (variations test_four) = 4"
  by (simp_all add: test_four_def test_ab_def check_minimum_sample_size_def var_a_def var_b_def
        var_c_def var_d_def)

text \<open>
  Claim C10 says that for every running test meeting the sample-size floor whose first
  pairwise comparison is significant, \<open>get_recommendation\<close> calls \<open>analyze_test\<close> and
  thereby stores winner, \<open>is_significant\<close> and p-value on the test. The test
  \<open>test_four\<close> is running, its four variations meet the floor, and its first comparison
  (A with B, in name order) is significant. \<open>analyze_test\<close> compares all six pairs before
  it looks at the first result; the comparison of C with D, two variations without a
  click, passes a table with a zero column to the chi-square function, which raises.
  The exception leaves \<open>analyze_test\<close> and \<open>get_recommendation\<close>: nothing is returned
  and nothing is stored.
\<close>

theorem get_recommendation_raises:
  "status test_four = ''running'' \<and> check_minimum_sample_size test_four
   \<and> order_by_name (variations test_four) = [var_a, var_b, var_c, var_d]
   \<and> calculate_statistical_significance chi2_four var_a var_b (success_metric test_four) = Inr res_ab
   \<and> significant res_ab
   \<and> calculate_statistical_significance chi2_four var_c var_d (success_metric test_four) = Inl ValueError
   \<and> analyze_test chi2_four test_four = Inl ValueError
   \<and> get_recommendation chi2_four test_four = Inl ValueError"
proof -
  have "compare_pairs chi2_four (success_metric test_four) (order_by_name (variations test_four)) =
          Inl ValueError"
    by (simp only: test_four_fields order_four pairs_four)
  then have a: "analyze_test chi2_four test_four = Inl ValueError"
    by (simp add: analyze_test_def Let_def test_four_fields(1,3,4) length_order_by_name)
  then have "get_recommendation chi2_four test_four = Inl ValueError"
    by (simp add: get_recommendation_def)
  with a show ?thesis
    by (simp add: test_four_fields order_four calc_four_ab calc_four_cd res_fields)
qed

section \<open>The weekly recommendations\<close>

text \<open>The sort key of the three priorities; it takes no value above 3.\<close>

lemma sort_rank_priority:
  "w_priority x = ''high'' \<Longrightarrow> sort_rank x = 0"
  "w_priority x = ''medium'' \<Longrightarrow> sort_rank x = 1"
  "w_priority x = ''low'' \<Longrightarrow> sort_rank x = 2"
  by (simp_all add: sort_rank_def priority_order_def)

lemma sort_rank_cases:
  "sort_rank x = 0 \<or> sort_rank x = 1 \<or> sort_rank x = 2 \<or> sort_rank x = 3"
  by (simp add: sort_rank_def priority_order_def)

lemma sort_rank_iff:
  "sort_rank x = 0 \<longleftrightarrow> w_priority x = ''high''"
  "sort_rank x = 1 \<longleftrightarrow> w_priority x = ''medium''"
  "sort_rank x = Suc 0 \<longleftrightarrow> w_priority x = ''medium''"
  by (simp_all add: sort_rank_def priority_order_def)

text \<open>
  A stable sort by a key with the four values 0 to 3 lists the entries of key 0 in
  their order, then those of key 1, of key 2 and of key 3.
\<close>

lemma insort_key_skip:
  fixes f :: "'a \<Rightarrow> nat"
  shows "\<forall>y\<in>set ys. f y < f x \<Longrightarrow> insort_key f x (ys @ zs) = ys @ insort_key f x zs"
  by (induction ys) auto

lemma sort_key_four_ranks:
  fixes f :: "'a \<Rightarrow> nat"
  assumes "\<And>x. f x = 0 \<or> f x = 1 \<or> f x = 2 \<or> f x = 3"
  shows "sort_key f xs =
           filter (\<lambda>x. f x = 0) xs @ filter (\<lambda>x. f x = 1) xs
           @ filter (\<lambda>x. f x = 2) xs @ filter (\<lambda>x. f x = 3) xs"
proof (induction xs)
  case Nil
  show ?case by simp
next
  case (Cons x xs)
  let ?F = "\<lambda>k. filter (\<lambda>x. f x = k) xs"
  have s: "sort_key f (x # xs) = insort_key f x (?F 0 @ ?F 1 @ ?F 2 @ ?F 3)"
    by (simp add: Cons.IH)
  from assms [of x] consider "f x = 0" | "f x = 1" | "f x = 2" | "f x = 3" by auto
  then show ?case
  proof cases
    case 1
    then have "insort_key f x (?F 0 @ ?F 1 @ ?F 2 @ ?F 3) = x # ?F 0 @ ?F 1 @ ?F 2 @ ?F 3"
      by (intro insort_is_Cons) simp
    with 1 s show ?thesis by simp
  next
    case 2
    have c: "\<forall>y\<in>set (?F 0). f y < f x"
      by (auto simp: 2)
    have "insort_key f x (?F 0 @ ?F 1 @ ?F 2 @ ?F 3) = ?F 0 @ insort_key f x (?F 1 @ ?F 2 @ ?F 3)"
      using insort_key_skip [OF c, of "?F 1 @ ?F 2 @ ?F 3"] by simp
    also have "insort_key f x (?F 1 @ ?F 2 @ ?F 3) = x # ?F 1 @ ?F 2 @ ?F 3"
      by (intro insort_is_Cons) (auto simp: 2)
    finally show ?thesis using 2 s by simp
  next
    case 3
    have c: "\<forall>y\<in>set (?F 0 @ ?F 1). f y < f x"
      by (auto simp: 3)
    have "insort_key f x (?F 0 @ ?F 1 @ ?F 2 @ ?F 3) = (?F 0 @ ?F 1) @ insort_key f x (?F 2 @ ?F 3)"
      using insort_key_skip [OF c, of "?F 2 @ ?F 3"] by simp
    also have "insort_key f x (?F 2 @ ?F 3) = x # ?F 2 @ ?F 3"
      by (intro insort_is_Cons) (auto simp: 3)
    finally show ?thesis using 3 s by simp
  next
    case 4
    have c: "\<forall>y\<in>set (?F 0 @ ?F 1 @ ?F 2). f y < f x"
      by (auto simp: 4)
    have "insort_key f x (?F 0 @ ?F 1 @ ?F 2 @ ?F 3) = (?F 0 @ ?F 1 @ ?F 2) @ insort_key f x (?F 3)"
      using insort_key_skip [OF c, of "?F 3"] by simp
    also have "insort_key f x (?F 3) = x # ?F 3"
      by (intro insort_is_Cons) (auto simp: 4)
    finally show ?thesis using 4 s by simp
  qed
qed

text \<open>Every rule of the table has the priority \<open>high\<close> or \<open>medium\<close>.\<close>

lemma rules_priority:
  "x \<in> set (weekly_rules repr_float a c g s n k top_campaign worst_campaign ins)
   \<Longrightarrow> w_priority x = ''high'' \<or> w_priority x = ''medium''"
  by (auto simp: weekly_rules_def split: if_splits option.splits)

text \<open>
  The generator returns the first six entries of the list that has the \<open>high\<close> rules in
  the order of the table, then the \<open>medium\<close> ones in the order of the table.
\<close>

lemma generate_eq:
  "generate_weekly_recommendations repr_float a c g s n k top_campaign worst_campaign ins =
     take 6
       (filter (\<lambda>x. w_priority x = ''high'')
          (weekly_rules repr_float a c g s n k top_campaign worst_campaign ins)
        @ filter (\<lambda>x. w_priority x = ''medium'')
            (weekly_rules repr_float a c g s n k top_campaign worst_campaign ins))"
proof -
  let ?R = "weekly_rules repr_float a c g s n k top_campaign worst_campaign ins"
  have hm: "sort_rank x = 0 \<or> sort_rank x = 1" if "x \<in> set ?R" for x
    using rules_priority [OF that] by (simp only: sort_rank_iff)
  have n: "sort_rank x \<noteq> 2 \<and> sort_rank x \<noteq> 3" if "x \<in> set ?R" for x
    using hm [OF that] by auto
  have 2: "filter (\<lambda>x. sort_rank x = 2) ?R = []"
    by (simp add: filter_empty_conv n)
  have 3: "filter (\<lambda>x. sort_rank x = 3) ?R = []"
    by (simp add: filter_empty_conv n)
  have "sort_key sort_rank ?R =
          filter (\<lambda>x. sort_rank x = 0) ?R @ filter (\<lambda>x. sort_rank x = 1) ?R"
    using sort_key_four_ranks [of sort_rank ?R, OF sort_rank_cases] by (simp add: 2 3)
  then show ?thesis
    by (simp add: generate_weekly_recommendations_def sort_rank_iff)
qed

text \<open>
  A week in which all seven rules fire: the table in its order, and the six entries
  returned; the cap drops the last \<open>medium\<close> rule.
\<close>

lemma seven_rules_table:
  "map w_title (weekly_rules repr_float (PyFloat (11 / 2)) (PyFloat 2) (PyFloat 25) (PyFloat 100) 0 3
      (Some top_scorer) None \<lparr>insights_roas = PyFloat (3 / 2)\<rparr>) =
     [''Excellent Performance - Scale Up'', ''Optimize Conversion Funnel'', ''Capitalize on Momentum'',
      ''Increase Ad Variations'', ''Improve Return on Ad Spend'', ''Launch Active Campaigns'',
      ''Scale Top Performer: Spring Sale'']"
  by (simp add: weekly_rules_def top_scorer_def new_summary_def)

lemma seven_rules_returned:
  "map w_title (generate_weekly_recommendations repr_float (PyFloat (11 / 2)) (PyFloat 2) (PyFloat 25)
      (PyFloat 100) 0 3 (Some top_scorer) None \<lparr>insights_roas = PyFloat (3 / 2)\<rparr>) =
     [''Excellent Performance - Scale Up'', ''Optimize Conversion Funnel'', ''Improve Return on Ad Spend'',
      ''Launch Active Campaigns'', ''Capitalize on Momentum'', ''Increase Ad Variations'']"
  by (simp add: generate_eq) (simp add: weekly_rules_def top_scorer_def new_summary_def)


end
